theory Spec2Isabelle
  imports Main
begin

section \<open>Statuses, source states and blocks\<close>

text \<open>
  Modelled from the spec: the \<open>Status\<close> class (common/status.h) is not among the sources.
  The constructors are \<open>Status::OK()\<close> and \<open>Status::InternalError\<close>, which the sources
  call, and the other members of the error taxonomy of section 7 of the specification.
\<close>

datatype status =
    OK
  | InvalidArgument string
  | InternalError string
  | UpstreamFailure string
  | Cancelled string

text \<open>
  Modelled from the spec: the enumeration \<open>SourceState\<close> (declared in the operator header,
  not among the sources), with the three members of section 3 of the specification.
\<close>

datatype source_state = RUNNING | DEPEND_ON_SOURCE | FINISHED

text \<open>
  A \<open>vectorized::Block\<close> is an ordered sequence of columns. A column carries its rows and
  the storage it has reserved; every cell is a byte string.
\<close>

record column =
  cells :: "string list"
  reserved :: nat

type_synonym block = "column list"

definition rows :: "block \<Rightarrow> nat" where
  "rows b = (case b of [] \<Rightarrow> 0 | c # _ \<Rightarrow> length (cells c))"

text \<open>\<open>Block::swap\<close>: \<open>this->swap(other)\<close> exchanges the contents of the two blocks.\<close>

definition block_swap :: "block \<Rightarrow> block \<Rightarrow> block \<times> block" where
  "block_swap this other = (other, this)"

text \<open>
  Modelled from the spec: \<open>Block::clear_column_data\<close> is not among the sources. Section 4.1:
  "\<open>clear(n_columns)\<close> resets column storage for exactly the materialized slots used by the
  producing stage, leaving capacity allocated for reuse"; section 8: a batch is never handed
  back "with stale row data from a previous use after \<open>clear\<close>". After the call the
  storage of the block is exactly the materialized slots: the first \<open>n\<close> columns lose
  their rows and keep their reserved storage, and a column beyond them, which no slot of
  the stage stands for, is dropped from the block.
\<close>

definition clear_column :: "column \<Rightarrow> column" where
  "clear_column c = c\<lparr>cells := []\<rparr>"

definition clear_column_data :: "nat \<Rightarrow> block \<Rightarrow> block" where
  "clear_column_data n b = map clear_column (take n b)"

section \<open>The block queue\<close>

text \<open>
  Modelled from the spec: the class \<open>DataQueue\<close> (the BlockQueue of sections 3 and 4.2) is
  not among the sources; only its caller is. The state is the ready sequence, the free-list,
  the two flags and the bound on the ready sequence, and \<open>data_exhausted\<close>, the answer of
  the call of that name in the operator: whether a pop has found the queue exhausted.
\<close>

record 'b block_queue =
  ready :: "'b list"
  free_list :: "'b list"
  producer_finished :: bool
  data_exhausted :: bool
  consumer_detached :: bool
  bound :: nat

text \<open>
  Modelled from the spec: \<open>push_ready\<close> inserts at the tail of the ready sequence and is
  rejected (\<open>None\<close>, the queue unchanged, the producer retries later) when the ready
  sequence has reached the bound. A queue whose producer has marked finished takes no
  further batch either: section 4.2 has the queue exhausted "once the ready sequence is
  empty" after \<open>mark_producer_finished\<close> and says of \<open>is_exhausted\<close> "once true, stays
  true", and section 3 has the queue never non-empty and exhausted at once.
\<close>

definition push_ready :: "'b \<Rightarrow> 'b block_queue \<Rightarrow> 'b block_queue option" where
  "push_ready b q =
     (if producer_finished q \<or> bound q \<le> length (ready q) then None
      else Some (q\<lparr>ready := ready q @ [b]\<rparr>))"

text \<open>
  Modelled from the spec: \<open>try_pop_ready\<close> removes and returns the head of the ready
  sequence if it is non-empty, and returns nothing otherwise. A pop that returns nothing
  from a queue whose producer has finished has met the exhausted queue, and the queue
  records it in \<open>data_exhausted\<close>; this record is what the operator reads before and
  after its pop. Section 4.3 has the step turn to the legacy node when the pop leaves the
  queue exhausted, "so the caller always receives a batch or a definitive EOS, never an
  empty result", and in that branch the operator hands nothing of the pop to its caller;
  sections 1 and 8 (scenario A) have every pushed batch delivered. So the record is set
  by the pop that hands over nothing, not by the pop that hands over the last batch.
\<close>

definition try_pop_ready :: "'b block_queue \<Rightarrow> 'b option \<times> 'b block_queue" where
  "try_pop_ready q =
     (case ready q of
        [] \<Rightarrow> (None, if producer_finished q then q\<lparr>data_exhausted := True\<rparr> else q)
      | b # bs \<Rightarrow> (Some b, q\<lparr>ready := bs\<rparr>))"

text \<open>
  Modelled from the spec: \<open>push_free\<close> returns an emptied batch to the free-list and
  \<open>try_pop_free\<close> takes one from it. The specification fixes no order on the free-list;
  here a batch enters at the tail and leaves at the head.
\<close>

definition push_free :: "'b \<Rightarrow> 'b block_queue \<Rightarrow> 'b block_queue" where
  "push_free b q = q\<lparr>free_list := free_list q @ [b]\<rparr>"

definition try_pop_free :: "'b block_queue \<Rightarrow> 'b option \<times> 'b block_queue" where
  "try_pop_free q =
     (case free_list q of
        [] \<Rightarrow> (None, q)
      | b # bs \<Rightarrow> (Some b, q\<lparr>free_list := bs\<rparr>))"

text \<open>Modelled from the spec: \<open>mark_producer_finished\<close> sets the finished flag.\<close>

definition mark_producer_finished :: "'b block_queue \<Rightarrow> 'b block_queue" where
  "mark_producer_finished q = q\<lparr>producer_finished := True\<rparr>"

text \<open>
  Modelled from the spec: \<open>is_exhausted\<close> is "true iff finished flag set AND ready sequence
  empty", and \<open>has_data_or_finished\<close> is "true if there is a batch to consume or the queue
  is exhausted". The operations set \<open>data_exhausted\<close> only on a queue for which
  \<open>is_exhausted\<close> holds.
\<close>

definition is_exhausted :: "'b block_queue \<Rightarrow> bool" where
  "is_exhausted q = (producer_finished q \<and> ready q = [])"

definition has_data_or_finished :: "'b block_queue \<Rightarrow> bool" where
  "has_data_or_finished q = (ready q \<noteq> [] \<or> is_exhausted q)"

section \<open>The streaming aggregation source operator\<close>

text \<open>
  The operator reaches its queue and its legacy node through pointers. The calls it makes
  on them are the fields of two interface records, so that the operator is modelled for
  every queue and every node: \<open>data_exhausted\<close>, \<open>get_block_from_queue\<close> (a status, the
  queue afterwards and the \<open>unique_ptr\<close> it filled, \<open>None\<close> for a null pointer),
  \<open>push_free_block\<close> and \<open>has_data_or_finished\<close> of the queue; \<open>pull\<close> (from the node, the
  block and the value of \<open>eos\<close> to a status, the node afterwards, the block and \<open>eos\<close>) and
  \<open>row_desc().num_materialized_slots()\<close> of the node.
\<close>

record 'q queue_ops =
  dq_data_exhausted :: "'q \<Rightarrow> bool"
  dq_get_block_from_queue :: "'q \<Rightarrow> status \<times> 'q \<times> block option"
  dq_push_free_block :: "'q \<Rightarrow> block \<Rightarrow> 'q"
  dq_has_data_or_finished :: "'q \<Rightarrow> bool"

record 'n node_ops =
  node_pull :: "'n \<Rightarrow> block \<Rightarrow> bool \<Rightarrow> status \<times> 'n \<times> block \<times> bool"
  node_num_materialized_slots :: "'n \<Rightarrow> nat"

record ('q, 'n) streaming_agg_source_operator =
  data_queue :: 'q
  node :: 'n

text \<open>
  The calls one step makes on the queue, the node and the blocks, in order, each with
  what it returned.
\<close>

datatype event =
    DataExhausted bool
  | GetBlockFromQueue status
  | Pull status bool
  | Swap
  | ClearColumnData nat
  | PushFreeBlock

fun event_status :: "event \<Rightarrow> status option" where
  "event_status (GetBlockFromQueue st) = Some st"
| "event_status (Pull st eos) = Some st"
| "event_status e = None"

fun is_pull :: "event \<Rightarrow> bool" where
  "is_pull (Pull st eos) = True"
| "is_pull e = False"

record ('q, 'n) step_result =
  ret :: status
  queue_after :: 'q
  node_after :: 'n
  block_after :: block
  source_state_after :: source_state
  calls :: "event list"

text \<open>\<open>StreamingAggSourceOperator::can_read\<close>.\<close>

definition can_read :: "'q queue_ops \<Rightarrow> ('q, 'n) streaming_agg_source_operator \<Rightarrow> bool" where
  "can_read Q opr = dq_has_data_or_finished Q (data_queue opr)"

text \<open>
  \<open>RETURN_IF_ERROR(_node->pull(state, block, &eos))\<close> with \<open>eos\<close> still \<open>false\<close>, followed by
  the end of \<open>get_block\<close>: the assignment to \<open>source_state\<close> and \<open>return Status::OK()\<close>. A
  failed pull returns its status at once and \<open>source_state\<close> keeps the value it had.
\<close>

definition pull_step ::
    "'n node_ops \<Rightarrow> 'q \<Rightarrow> 'n \<Rightarrow> block \<Rightarrow> source_state \<Rightarrow> event list \<Rightarrow> ('q, 'n) step_result" where
  "pull_step N q n block ss evs =
     (case node_pull N n block False of
        (st, n', block', eos) \<Rightarrow>
          if st \<noteq> OK then
            \<lparr>ret = st, queue_after = q, node_after = n', block_after = block',
             source_state_after = ss, calls = evs @ [Pull st eos]\<rparr>
          else
            \<lparr>ret = OK, queue_after = q, node_after = n', block_after = block',
             source_state_after = (if eos then FINISHED else DEPEND_ON_SOURCE),
             calls = evs @ [Pull st eos]\<rparr>)"

text \<open>
  \<open>StreamingAggSourceOperator::get_block\<close>. The arguments are the operator, the block
  behind \<open>block\<close> and the value of \<open>source_state\<close> at entry. The result is \<open>None\<close> where the
  code dereferences a null \<open>agg_block\<close> (\<open>block->swap(*agg_block)\<close> after a pop that
  filled nothing), which is undefined behaviour. The timer of the first line is
  instrumentation only and is left out.
\<close>

definition get_block ::
    "'q queue_ops \<Rightarrow> 'n node_ops \<Rightarrow> ('q, 'n) streaming_agg_source_operator \<Rightarrow> block \<Rightarrow>
     source_state \<Rightarrow> ('q, 'n) step_result option" where
  "get_block Q N opr block ss =
     (if \<not> dq_data_exhausted Q (data_queue opr) then
        (case dq_get_block_from_queue Q (data_queue opr) of
           (st, q1, agg_block) \<Rightarrow>
             if st \<noteq> OK then
               Some \<lparr>ret = st, queue_after = q1, node_after = node opr, block_after = block,
                     source_state_after = ss,
                     calls = [DataExhausted False, GetBlockFromQueue st]\<rparr>
             else if dq_data_exhausted Q q1 then
               Some (pull_step N q1 (node opr) block ss
                       [DataExhausted False, GetBlockFromQueue st, DataExhausted True])
             else
               (case agg_block of
                  None \<Rightarrow> None
                | Some agg \<Rightarrow>
                    (case block_swap block agg of
                       (block', agg') \<Rightarrow>
                         Some \<lparr>ret = OK,
                               queue_after = dq_push_free_block Q q1
                                 (clear_column_data (node_num_materialized_slots N (node opr)) agg'),
                               node_after = node opr, block_after = block',
                               source_state_after = DEPEND_ON_SOURCE,
                               calls = [DataExhausted False, GetBlockFromQueue st,
                                        DataExhausted False, Swap,
                                        ClearColumnData (node_num_materialized_slots N (node opr)),
                                        PushFreeBlock]\<rparr>)))
      else
        Some (pull_step N (data_queue opr) (node opr) block ss [DataExhausted True]))"

text \<open>
  The operator bound to the block queue of the specification: \<open>data_exhausted\<close> reads the
  field of that name, \<open>get_block_from_queue\<close> is \<open>try_pop_ready\<close> (which reports no failure)
  and \<open>push_free_block\<close> is \<open>push_free\<close>.
\<close>

definition block_queue_ops :: "block block_queue queue_ops" where
  "block_queue_ops =
     \<lparr>dq_data_exhausted = data_exhausted,
      dq_get_block_from_queue = (\<lambda>q. case try_pop_ready q of (b, q') \<Rightarrow> (OK, q', b)),
      dq_push_free_block = (\<lambda>q b. push_free b q),
      dq_has_data_or_finished = has_data_or_finished\<rparr>"

text \<open>
  Modelled from the spec: the legacy node bridge \<open>pull(state, batch, &eos) -> Status\<close> of
  section 6; the aggregation node itself is not among the sources. This node answers from
  a script: each pull takes the next scripted reply (a status, the rows it writes, if
  any, and the end-of-stream flag), and a node whose script has run out reports
  end-of-stream at once and leaves the block as it is.
\<close>

record scripted_node =
  script :: "(status \<times> block option \<times> bool) list"
  slots :: nat

definition scripted_node_ops :: "scripted_node node_ops" where
  "scripted_node_ops =
     \<lparr>node_pull = (\<lambda>n block eos.
         case script n of
           [] \<Rightarrow> (OK, n, block, True)
         | (st, out, e) # rest \<Rightarrow>
             (st, n\<lparr>script := rest\<rparr>, (case out of None \<Rightarrow> block | Some b \<Rightarrow> b), e)),
      node_num_materialized_slots = slots\<rparr>"

text \<open>
  A caller that invokes \<open>get_block\<close> once for each output block it supplies, on the same
  operator, with the same \<open>source_state\<close> variable.
\<close>

fun get_blocks ::
    "'q queue_ops \<Rightarrow> 'n node_ops \<Rightarrow> ('q, 'n) streaming_agg_source_operator \<Rightarrow> block list \<Rightarrow>
     source_state \<Rightarrow> ('q, 'n) step_result list option" where
  "get_blocks Q N opr [] ss = Some []"
| "get_blocks Q N opr (block # blocks) ss =
     (case get_block Q N opr block ss of
        None \<Rightarrow> None
      | Some r \<Rightarrow>
          (case get_blocks Q N \<lparr>data_queue = queue_after r, node = node_after r\<rparr> blocks
                  (source_state_after r) of
             None \<Rightarrow> None
           | Some rs \<Rightarrow> Some (r # rs)))"

text \<open>
  What the caller sees of one step: the status, the output block, the source state and
  whether the legacy node was pulled.
\<close>

definition summary :: "('q, 'n) step_result \<Rightarrow> status \<times> block \<times> source_state \<times> bool" where
  "summary r = (ret r, block_after r, source_state_after r, list_ex is_pull (calls r))"


fun failed :: "event \<Rightarrow> bool" where
  "failed e = (case event_status e of None \<Rightarrow> False | Some st \<Rightarrow> st \<noteq> OK)"

fun is_pop :: "event \<Rightarrow> bool" where
  "is_pop (GetBlockFromQueue st) = True"
| "is_pop e = False"

subsection \<open>Scenario A\<close>

text \<open>
  A batch of 100 rows in two columns, a queue pre-loaded with three of them whose producer
  has marked finished, and a legacy node that reports end-of-stream at once.
\<close>

definition empty_block :: block where
  "empty_block = []"

definition batch100 :: "string \<Rightarrow> block" where
  "batch100 s = [\<lparr>cells = replicate 100 s, reserved = 100\<rparr>,
                 \<lparr>cells = replicate 100 s, reserved = 100\<rparr>]"

definition scenario_A_queue :: "block block_queue" where
  "scenario_A_queue =
     \<lparr>ready = [batch100 ''a'', batch100 ''b'', batch100 ''c''], free_list = [],
      producer_finished = True, data_exhausted = False, consumer_detached = False,
      bound = 8\<rparr>"

definition eos_node :: scripted_node where
  "eos_node = \<lparr>script = [], slots = 2\<rparr>"

definition scenario_A :: "(block block_queue, scripted_node) streaming_agg_source_operator" where
  "scenario_A = \<lparr>data_queue = scenario_A_queue, node = eos_node\<rparr>"

subsection \<open>Further concrete queues and nodes\<close>

text \<open>
  A queue holding the given ready batches from which nothing has been popped yet, a
  finished queue that a pop has found exhausted, a legacy node whose next pull fails, a
  node of one materialized slot, and a queue interface whose pop reports a failure (as a
  cancelled queue does).
\<close>

definition loaded_queue :: "block list \<Rightarrow> bool \<Rightarrow> block block_queue" where
  "loaded_queue bs fin =
     \<lparr>ready = bs, free_list = [], producer_finished = fin, data_exhausted = False,
      consumer_detached = False, bound = 8\<rparr>"

definition exhausted_queue :: "block block_queue" where
  "exhausted_queue = (loaded_queue [] True)\<lparr>data_exhausted := True\<rparr>"


definition failing_node :: scripted_node where
  "failing_node = \<lparr>script = [(UpstreamFailure ''pull failed'', None, False)], slots = 2\<rparr>"

definition broken_queue_ops :: "block block_queue queue_ops" where
  "broken_queue_ops =
     block_queue_ops\<lparr>dq_get_block_from_queue := (\<lambda>q. (Cancelled ''queue cancelled'', q, None))\<rparr>"

text \<open>An output block that still carries a row of an earlier use in each of its two columns.\<close>

definition used_block :: block where
  "used_block = [\<lparr>cells = [''k''], reserved = 4\<rparr>, \<lparr>cells = [''v''], reserved = 4\<rparr>]"

section \<open>Sequences of queue operations\<close>

text \<open>Modelled from the spec: a queue as it is created, with nothing in it and no flag set.\<close>

definition empty_queue :: "nat \<Rightarrow> 'b block_queue" where
  "empty_queue c =
     \<lparr>ready = [], free_list = [], producer_finished = False, data_exhausted = False,
      consumer_detached = False, bound = c\<rparr>"

datatype 'b queue_op =
    PushReady 'b
  | TryPopReady
  | PushFree 'b
  | TryPopFree
  | MarkProducerFinished

fun apply_queue_op :: "'b queue_op \<Rightarrow> 'b block_queue \<Rightarrow> 'b block_queue" where
  "apply_queue_op (PushReady b) q = (case push_ready b q of None \<Rightarrow> q | Some q' \<Rightarrow> q')"
| "apply_queue_op TryPopReady q = snd (try_pop_ready q)"
| "apply_queue_op (PushFree b) q = push_free b q"
| "apply_queue_op TryPopFree q = snd (try_pop_free q)"
| "apply_queue_op MarkProducerFinished q = mark_producer_finished q"

fun run_queue_ops :: "'b queue_op list \<Rightarrow> 'b block_queue \<Rightarrow> 'b block_queue" where
  "run_queue_ops [] q = q"
| "run_queue_ops (x # xs) q = run_queue_ops xs (apply_queue_op x q)"

fun is_push_ready :: "'b queue_op \<Rightarrow> bool" where
  "is_push_ready (PushReady b) = True"
| "is_push_ready x = False"

section \<open>Ownership of batches\<close>

text \<open>
  Modelled from the spec: the producer stage and the consumer stage around one queue
  (section 3: a batch is owned by the producer, the queue, the consumer or the free-list).
  A batch handed to a queue operation is moved, as a \<open>unique_ptr\<close> is: the caller no
  longer holds it, and a rejected push leaves it with the producer. \<open>pushed\<close> and
  \<open>popped\<close> record the batches in the order in which the ready sequence accepted and
  released them.
\<close>

record 'b handoff =
  producer :: "'b list"
  queue :: "'b block_queue"
  consumer :: "'b list"
  pushed :: "'b list"
  popped :: "'b list"

datatype 'b action =
    ProducerPush 'b
  | ConsumerPop
  | ConsumerRecycle 'b
  | ProducerReuse
  | ProducerFinish

fun act :: "'b action \<Rightarrow> 'b handoff \<Rightarrow> 'b handoff" where
  "act (ProducerPush b) s =
     (if b \<in> set (producer s) then
        (case push_ready b (queue s) of
           None \<Rightarrow> s
         | Some q' \<Rightarrow> s\<lparr>producer := remove1 b (producer s), queue := q',
                         pushed := pushed s @ [b]\<rparr>)
      else s)"
| "act ConsumerPop s =
     (case try_pop_ready (queue s) of
        (None, q') \<Rightarrow> s\<lparr>queue := q'\<rparr>
      | (Some b, q') \<Rightarrow> s\<lparr>queue := q', consumer := consumer s @ [b],
                           popped := popped s @ [b]\<rparr>)"
| "act (ConsumerRecycle b) s =
     (if b \<in> set (consumer s) then
        s\<lparr>consumer := remove1 b (consumer s), queue := push_free b (queue s)\<rparr>
      else s)"
| "act ProducerReuse s =
     (case try_pop_free (queue s) of
        (None, q') \<Rightarrow> s
      | (Some b, q') \<Rightarrow> s\<lparr>queue := q', producer := producer s @ [b]\<rparr>)"
| "act ProducerFinish s = s\<lparr>queue := mark_producer_finished (queue s)\<rparr>"

fun run :: "'b action list \<Rightarrow> 'b handoff \<Rightarrow> 'b handoff" where
  "run [] s = s"
| "run (a # as) s = run as (act a s)"

text \<open>The number of places that hold the batch \<open>b\<close>.\<close>

definition holders :: "'b handoff \<Rightarrow> 'b \<Rightarrow> nat" where
  "holders s b =
     count_list (producer s) b + count_list (ready (queue s)) b +
     count_list (consumer s) b + count_list (free_list (queue s)) b"

text \<open>A producer holding three batches in front of an empty queue that takes two.\<close>

definition three_batches :: "nat handoff" where
  "three_batches =
     \<lparr>producer = [1, 2, 3], queue = empty_queue 2, consumer = [], pushed = [], popped = []\<rparr>"

section \<open>The schema scanner of the session variables\<close>

text \<open>\<open>TYPE_VARCHAR\<close> is the only member of \<open>PrimitiveType\<close> that the scanner names.\<close>

datatype primitive_type = TYPE_VARCHAR

record column_desc =
  col_name :: string
  col_type :: primitive_type
  col_size :: nat
  col_is_null :: bool

text \<open>\<open>sizeof(StringRef)\<close>: a pointer and a length, eight bytes each.\<close>

definition sizeof_StringRef :: nat where
  "sizeof_StringRef = 16"

definition s_vars_columns :: "column_desc list" where
  "s_vars_columns =
     [\<lparr>col_name = ''VARIABLE_NAME'', col_type = TYPE_VARCHAR, col_size = sizeof_StringRef,
       col_is_null = False\<rparr>,
      \<lparr>col_name = ''VARIABLE_VALUE'', col_type = TYPE_VARCHAR, col_size = sizeof_StringRef,
       col_is_null = False\<rparr>]"

text \<open>
  The scanner: \<open>_is_init\<close> and the entries of \<open>_var_result.variables\<close> in the order in
  which the map is iterated.
\<close>

record schema_variables_scanner =
  is_init :: bool
  variables :: "(string \<times> string) list"

text \<open>
  Modelled from the spec: \<open>fill_dest_column\<close> belongs to the base class \<open>SchemaScanner\<close>,
  which is not among the sources. It appends the value as one more row to the column of
  the block that the descriptor names, the columns of the block being those of
  \<open>_s_vars_columns\<close> in order; a block without that column is left as it is. The scanner
  takes the function as a parameter, and this one stands for it in concrete runs.
\<close>

definition fill_dest_column :: "block \<Rightarrow> string \<Rightarrow> column_desc \<Rightarrow> block" where
  "fill_dest_column b str desc =
     (case List.find (\<lambda>i. col_name (s_vars_columns ! i) = col_name desc)
             [0 ..< length s_vars_columns] of
        None \<Rightarrow> b
      | Some i \<Rightarrow>
          if i < length b then b[i := (b ! i)\<lparr>cells := cells (b ! i) @ [str]\<rparr>] else b)"

text \<open>
  \<open>SchemaVariablesScanner::_fill_block_impl\<close>: one loop over the variables for the names,
  one for the values; the status is always OK.
\<close>

definition fill_block_impl ::
    "(block \<Rightarrow> string \<Rightarrow> column_desc \<Rightarrow> block) \<Rightarrow> schema_variables_scanner \<Rightarrow> block \<Rightarrow>
     status \<times> block" where
  "fill_block_impl fill sc block =
     (let b1 = foldl (\<lambda>b it. fill b (fst it) (s_vars_columns ! 0)) block (variables sc);
          b2 = foldl (\<lambda>b it. fill b (snd it) (s_vars_columns ! 1)) b1 (variables sc)
      in (OK, b2))"

text \<open>
  \<open>SchemaVariablesScanner::get_next_block\<close>. The two pointers are options, \<open>None\<close> for
  \<open>nullptr\<close>; the result is the status and what the two pointers point to afterwards.
\<close>

definition get_next_block ::
    "(block \<Rightarrow> string \<Rightarrow> column_desc \<Rightarrow> block) \<Rightarrow> schema_variables_scanner \<Rightarrow> block option \<Rightarrow>
     bool option \<Rightarrow> status \<times> block option \<times> bool option" where
  "get_next_block fill sc block eos =
     (if \<not> is_init sc then (InternalError ''call this before initial.'', block, eos)
      else
        (case (block, eos) of
           (Some b, Some e) \<Rightarrow>
             if variables sc = [] then (OK, Some b, Some True)
             else (case fill_block_impl fill sc b of
                     (st, b') \<Rightarrow> (st, Some b', Some True))
         | _ \<Rightarrow> (InternalError ''invalid parameter.'', block, eos)))"

fun is_invalid_argument :: "status \<Rightarrow> bool" where
  "is_invalid_argument (InvalidArgument msg) = True"
| "is_invalid_argument st = False"

fun is_internal_error :: "status \<Rightarrow> bool" where
  "is_internal_error (InternalError msg) = True"
| "is_internal_error st = False"

section \<open>Auxiliary facts\<close>

subsection \<open>One step on the block queue of the specification\<close>

lemma get_block_swap_bq:
  "get_block block_queue_ops N
     \<lparr>data_queue = \<lparr>ready = b # bs, free_list = fl, producer_finished = fin,
                    data_exhausted = False, consumer_detached = d, bound = c\<rparr>, node = n\<rparr>
     out ss =
   Some \<lparr>ret = OK,
         queue_after = \<lparr>ready = bs,
            free_list = fl @ [clear_column_data (node_num_materialized_slots N n) out],
            producer_finished = fin, data_exhausted = False, consumer_detached = d,
            bound = c\<rparr>,
         node_after = n, block_after = b, source_state_after = DEPEND_ON_SOURCE,
         calls = [DataExhausted False, GetBlockFromQueue OK, DataExhausted False, Swap,
                  ClearColumnData (node_num_materialized_slots N n), PushFreeBlock]\<rparr>"
  by (simp add: get_block_def block_queue_ops_def try_pop_ready_def push_free_def
      block_swap_def)

lemma get_block_drain_bq:
  "get_block block_queue_ops N
     \<lparr>data_queue = \<lparr>ready = [], free_list = fl, producer_finished = True,
                    data_exhausted = False, consumer_detached = d, bound = c\<rparr>, node = n\<rparr>
     out ss =
   Some (pull_step N \<lparr>ready = [], free_list = fl, producer_finished = True,
                      data_exhausted = True, consumer_detached = d, bound = c\<rparr> n out ss
           [DataExhausted False, GetBlockFromQueue OK, DataExhausted True])"
  by (simp add: get_block_def block_queue_ops_def try_pop_ready_def)

lemma get_block_exhausted_bq:
  "data_exhausted q \<Longrightarrow>
   get_block block_queue_ops N \<lparr>data_queue = q, node = n\<rparr> out ss =
   Some (pull_step N q n out ss [DataExhausted True])"
  by (simp add: get_block_def block_queue_ops_def)

text \<open>
  On the block queue of the specification a step that the readiness probe admits never
  reaches the dereference of a null \<open>agg_block\<close>.
\<close>

lemma get_block_defined_when_readable:
  assumes "can_read block_queue_ops opr"
  shows "get_block block_queue_ops N opr block ss \<noteq> None"
  using assms
  by (auto simp: can_read_def get_block_def block_queue_ops_def has_data_or_finished_def
      is_exhausted_def try_pop_ready_def block_swap_def split: list.splits)



subsection \<open>The scripted nodes\<close>

lemma eos_node_pull:
  "node_pull scripted_node_ops eos_node block False = (OK, eos_node, block, True)"
  by (simp add: scripted_node_ops_def eos_node_def)

lemma failing_node_pull:
  "node_pull scripted_node_ops failing_node block False =
     (UpstreamFailure ''pull failed'', \<lparr>script = [], slots = 2\<rparr>, block, False)"
  by (simp add: scripted_node_ops_def failing_node_def)

lemma eos_node_slots: "node_num_materialized_slots scripted_node_ops eos_node = 2"
  by (simp add: scripted_node_ops_def eos_node_def)



lemma exhausted_queue_exhausted: "data_exhausted exhausted_queue"
  by (simp add: exhausted_queue_def)

subsection \<open>Clearing a block\<close>



lemma clear_column_data_length: "length (clear_column_data k b) = min k (length b)"
  by (simp add: clear_column_data_def min.commute)

lemma clear_column_data_empty: "clear_column_data k empty_block = empty_block"
  by (simp add: clear_column_data_def empty_block_def)

subsection \<open>The free-list over steps\<close>




subsection \<open>Runs of queue operations\<close>

lemma apply_queue_op_finished:
  "producer_finished (apply_queue_op x q) = (producer_finished q \<or> x = MarkProducerFinished)"
  by (cases x) (auto simp: push_ready_def try_pop_ready_def push_free_def try_pop_free_def
      mark_producer_finished_def split: list.splits)

lemma run_queue_ops_finished:
  "producer_finished (run_queue_ops xs q) =
     (producer_finished q \<or> MarkProducerFinished \<in> set xs)"
  by (induction xs arbitrary: q) (auto simp: apply_queue_op_finished)

lemma apply_queue_op_exhausted: "is_exhausted q \<Longrightarrow> is_exhausted (apply_queue_op x q)"
  by (cases x) (auto simp: is_exhausted_def push_ready_def try_pop_ready_def push_free_def
      try_pop_free_def mark_producer_finished_def split: list.splits)

lemma run_queue_ops_exhausted: "is_exhausted q \<Longrightarrow> is_exhausted (run_queue_ops xs q)"
  by (induction xs arbitrary: q) (auto simp: apply_queue_op_exhausted)

lemma apply_queue_op_latch: "data_exhausted q \<Longrightarrow> data_exhausted (apply_queue_op x q)"
  by (cases x) (auto simp: push_ready_def try_pop_ready_def push_free_def
      try_pop_free_def mark_producer_finished_def split: list.splits)

lemma run_queue_ops_latch: "data_exhausted q \<Longrightarrow> data_exhausted (run_queue_ops xs q)"
  by (induction xs arbitrary: q) (auto simp: apply_queue_op_latch)

lemma apply_queue_op_latch_sound:
  "(data_exhausted q \<longrightarrow> is_exhausted q) \<Longrightarrow>
   data_exhausted (apply_queue_op x q) \<longrightarrow> is_exhausted (apply_queue_op x q)"
  by (cases x) (auto simp: is_exhausted_def push_ready_def try_pop_ready_def push_free_def
      try_pop_free_def mark_producer_finished_def split: list.splits)

lemma run_queue_ops_latch_sound:
  "(data_exhausted q \<longrightarrow> is_exhausted q) \<Longrightarrow>
   data_exhausted (run_queue_ops xs q) \<longrightarrow> is_exhausted (run_queue_ops xs q)"
proof (induction xs arbitrary: q)
  case Nil
  then show ?case by simp
next
  case (Cons x xs)
  from Cons.prems have "data_exhausted (apply_queue_op x q) \<longrightarrow> is_exhausted (apply_queue_op x q)"
    by (rule apply_queue_op_latch_sound)
  then show ?case using Cons.IH by simp
qed

subsection \<open>Runs of the producer and the consumer\<close>

lemma count_list_remove1:
  "b \<in> set xs \<Longrightarrow> count_list (remove1 b xs) c = count_list xs c - (if b = c then 1 else 0)"
  by (induction xs) auto

lemma count_list_pos: "b \<in> set xs \<Longrightarrow> 0 < count_list xs b"
  by (induction xs) auto

lemma act_holders: "holders (act a s) b = holders s b"
proof (cases a)
  case (ProducerPush x)
  then show ?thesis
    using count_list_pos [of x "producer s"]
    by (auto simp: holders_def push_ready_def count_list_remove1)
next
  case ConsumerPop
  then show ?thesis
    by (auto simp: holders_def try_pop_ready_def split: list.splits)
next
  case (ConsumerRecycle x)
  then show ?thesis
    using count_list_pos [of x "consumer s"]
    by (auto simp: holders_def push_free_def count_list_remove1)
next
  case ProducerReuse
  then show ?thesis
    by (auto simp: holders_def try_pop_free_def split: list.splits)
next
  case ProducerFinish
  then show ?thesis
    by (simp add: holders_def mark_producer_finished_def)
qed

lemma run_holders: "holders (run as s) b = holders s b"
  by (induction as arbitrary: s) (simp_all add: act_holders)

lemma act_fifo:
  "pushed s = popped s @ ready (queue s) \<Longrightarrow>
   pushed (act a s) = popped (act a s) @ ready (queue (act a s))"
  by (cases a) (auto simp: push_ready_def try_pop_ready_def push_free_def try_pop_free_def
      mark_producer_finished_def split: list.splits)

lemma run_fifo:
  "pushed s = popped s @ ready (queue s) \<Longrightarrow>
   pushed (run as s) = popped (run as s) @ ready (queue (run as s))"
  by (induction as arbitrary: s) (simp_all add: act_fifo)

subsection \<open>The scanner on a block of its two columns\<close>

lemma fill_dest_column_name:
  "fill_dest_column [c0, c1] str (s_vars_columns ! 0) = [c0\<lparr>cells := cells c0 @ [str]\<rparr>, c1]"
  by (simp add: fill_dest_column_def s_vars_columns_def upt_rec)

lemma fill_dest_column_value:
  "fill_dest_column [c0, c1] str (s_vars_columns ! Suc 0) =
     [c0, c1\<lparr>cells := cells c1 @ [str]\<rparr>]"
  by (simp add: fill_dest_column_def s_vars_columns_def upt_rec)

lemma fill_names:
  "foldl (\<lambda>b it. fill_dest_column b (fst it) (s_vars_columns ! 0)) [c0, c1] vs =
     [c0\<lparr>cells := cells c0 @ map fst vs\<rparr>, c1]"
  by (induction vs arbitrary: c0) (simp_all add: fill_dest_column_name)

lemma fill_values:
  "foldl (\<lambda>b it. fill_dest_column b (snd it) (s_vars_columns ! Suc 0)) [c0, c1] vs =
     [c0, c1\<lparr>cells := cells c1 @ map snd vs\<rparr>]"
  by (induction vs arbitrary: c1) (simp_all add: fill_dest_column_value)

section \<open>The step of the source operator\<close>

text \<open>
  C1. For every call to \<open>StreamingAggSourceOperator::get_block\<close>: if the bound queue is
  exhausted at entry, the step pulls directly from the legacy node; if it is not, the
  step pops from the queue; if the queue is exhausted after that pop, the step pulls from
  the legacy node in this same call; otherwise the popped batch is swapped into the output
  block, and the holder, which now carries the former contents of the output block, is
  cleared for the materialized slots of the node and pushed on the free-list of the queue.
  This holds for every queue and every node behind the two interfaces.
\<close>

theorem get_block_steps:
  "(dq_data_exhausted Q (data_queue opr) \<and>
      node_pull N (node opr) block False = (pst, n', block', eos) \<longrightarrow>
      (\<exists>r. get_block Q N opr block ss = Some r \<and>
           calls r = [DataExhausted True, Pull pst eos] \<and>
           queue_after r = data_queue opr \<and> node_after r = n' \<and> block_after r = block'))
   \<and> (\<not> dq_data_exhausted Q (data_queue opr) \<and>
      dq_get_block_from_queue Q (data_queue opr) = (OK, q', agg_block) \<and>
      dq_data_exhausted Q q' \<and>
      node_pull N (node opr) block False = (pst, n', block', eos) \<longrightarrow>
      (\<exists>r. get_block Q N opr block ss = Some r \<and>
           calls r = [DataExhausted False, GetBlockFromQueue OK, DataExhausted True,
                      Pull pst eos] \<and>
           queue_after r = q' \<and> node_after r = n' \<and> block_after r = block'))
   \<and> (\<not> dq_data_exhausted Q (data_queue opr) \<and>
      dq_get_block_from_queue Q (data_queue opr) = (OK, q', Some agg) \<and>
      \<not> dq_data_exhausted Q q' \<longrightarrow>
      (\<exists>r. get_block Q N opr block ss = Some r \<and>
           calls r = [DataExhausted False, GetBlockFromQueue OK, DataExhausted False, Swap,
                      ClearColumnData (node_num_materialized_slots N (node opr)),
                      PushFreeBlock] \<and>
           ret r = OK \<and> block_after r = agg \<and> node_after r = node opr \<and>
           queue_after r = dq_push_free_block Q q'
             (clear_column_data (node_num_materialized_slots N (node opr)) block)))"
  by (simp add: get_block_def pull_step_def block_swap_def)

text \<open>
  The three cases at work on the block queue of the specification: a queue that a pop
  has found exhausted, a finished queue with nothing left that the pop of this step finds
  exhausted, and a queue whose pop hands over a batch.
\<close>

theorem get_block_steps_witness:
  "dq_data_exhausted block_queue_ops exhausted_queue
   \<and> map_option calls (get_block block_queue_ops scripted_node_ops
        \<lparr>data_queue = exhausted_queue, node = eos_node\<rparr> empty_block RUNNING)
       = Some [DataExhausted True, Pull OK True]
   \<and> \<not> dq_data_exhausted block_queue_ops (loaded_queue [] True)
   \<and> dq_get_block_from_queue block_queue_ops (loaded_queue [] True) =
       (OK, exhausted_queue, None)
   \<and> map_option calls (get_block block_queue_ops scripted_node_ops
        \<lparr>data_queue = loaded_queue [] True, node = eos_node\<rparr> empty_block RUNNING)
       = Some [DataExhausted False, GetBlockFromQueue OK, DataExhausted True, Pull OK True]
   \<and> \<not> dq_data_exhausted block_queue_ops (loaded_queue [batch100 ''c''] True)
   \<and> map_option block_after (get_block block_queue_ops scripted_node_ops
        \<lparr>data_queue = loaded_queue [batch100 ''c''] True, node = eos_node\<rparr>
        empty_block RUNNING) = Some (batch100 ''c'')"
proof -
  have e0: "dq_data_exhausted block_queue_ops exhausted_queue"
    by (simp add: block_queue_ops_def exhausted_queue_def)
  have e1: "\<not> dq_data_exhausted block_queue_ops (loaded_queue [] True)"
    by (simp add: block_queue_ops_def loaded_queue_def)
  have e2: "\<not> dq_data_exhausted block_queue_ops (loaded_queue [batch100 ''c''] True)"
    by (simp add: block_queue_ops_def loaded_queue_def)
  have p1: "dq_get_block_from_queue block_queue_ops (loaded_queue [] True) =
      (OK, exhausted_queue, None)"
    by (simp add: block_queue_ops_def loaded_queue_def exhausted_queue_def try_pop_ready_def)
  have p2: "dq_get_block_from_queue block_queue_ops (loaded_queue [batch100 ''c''] True) =
      (OK, loaded_queue [] True, Some (batch100 ''c''))"
    by (simp add: block_queue_ops_def loaded_queue_def try_pop_ready_def)
  have a: "map_option calls (get_block block_queue_ops scripted_node_ops
        \<lparr>data_queue = exhausted_queue, node = eos_node\<rparr> empty_block RUNNING)
       = Some [DataExhausted True, Pull OK True]"
    using get_block_steps [where Q = block_queue_ops and N = scripted_node_ops
        and opr = "\<lparr>data_queue = exhausted_queue, node = eos_node\<rparr>"
        and block = empty_block and pst = OK and n' = eos_node and block' = empty_block
        and eos = True and ss = RUNNING]
      e0 eos_node_pull [of empty_block]
    by auto
  have b: "map_option calls (get_block block_queue_ops scripted_node_ops
        \<lparr>data_queue = loaded_queue [] True, node = eos_node\<rparr> empty_block RUNNING)
       = Some [DataExhausted False, GetBlockFromQueue OK, DataExhausted True, Pull OK True]"
    using get_block_steps [where Q = block_queue_ops and N = scripted_node_ops
        and opr = "\<lparr>data_queue = loaded_queue [] True, node = eos_node\<rparr>"
        and block = empty_block and q' = exhausted_queue and agg_block = None
        and pst = OK and n' = eos_node and block' = empty_block and eos = True
        and ss = RUNNING]
      e0 e1 p1 eos_node_pull [of empty_block]
    by auto
  have c: "map_option block_after (get_block block_queue_ops scripted_node_ops
        \<lparr>data_queue = loaded_queue [batch100 ''c''] True, node = eos_node\<rparr>
        empty_block RUNNING) = Some (batch100 ''c'')"
    using get_block_steps [where Q = block_queue_ops and N = scripted_node_ops
        and opr = "\<lparr>data_queue = loaded_queue [batch100 ''c''] True, node = eos_node\<rparr>"
        and block = empty_block and q' = "loaded_queue [] True"
        and agg = "batch100 ''c''" and ss = RUNNING]
      e1 e2 p2
    by auto
  from e0 e1 e2 p1 a b c show ?thesis by blast
qed

text \<open>
  C2. For every successful call to \<open>get_block\<close>, the source state returned is \<open>FINISHED\<close>
  if and only if the legacy node was pulled in that call and reported end-of-stream, and
  it is \<open>DEPEND_ON_SOURCE\<close> in every other successful case; it is never \<open>RUNNING\<close>. A pull
  recorded in the call is the pull of the node on the output block with \<open>eos\<close> false, so
  a call in which the node reports end-of-stream returns \<open>FINISHED\<close>.
\<close>

theorem get_block_source_state:
  assumes "get_block Q N opr block ss = Some r" and "ret r = OK"
  shows "(source_state_after r = FINISHED \<longleftrightarrow> (\<exists>st. Pull st True \<in> set (calls r)))
       \<and> (source_state_after r \<noteq> FINISHED \<longrightarrow> source_state_after r = DEPEND_ON_SOURCE)
       \<and> source_state_after r \<noteq> RUNNING
       \<and> (\<forall>st eos. Pull st eos \<in> set (calls r) \<longrightarrow>
             node_pull N (node opr) block False = (st, node_after r, block_after r, eos))"
  using assms
  by (auto simp: get_block_def pull_step_def block_swap_def
      split: if_splits prod.splits option.splits)

text \<open>
  A call that pulls from a node at end-of-stream and a call that takes a batch from the
  queue.
\<close>

theorem get_block_source_state_witness:
  "get_block block_queue_ops scripted_node_ops
      \<lparr>data_queue = exhausted_queue, node = eos_node\<rparr> empty_block RUNNING =
     Some \<lparr>ret = OK, queue_after = exhausted_queue, node_after = eos_node,
           block_after = empty_block, source_state_after = FINISHED,
           calls = [DataExhausted True, Pull OK True]\<rparr>
   \<and> get_block block_queue_ops scripted_node_ops
      \<lparr>data_queue = loaded_queue [batch100 ''a''] False, node = eos_node\<rparr> empty_block RUNNING =
     Some \<lparr>ret = OK, queue_after = (loaded_queue [] False)\<lparr>free_list := [empty_block]\<rparr>,
           node_after = eos_node, block_after = batch100 ''a'',
           source_state_after = DEPEND_ON_SOURCE,
           calls = [DataExhausted False, GetBlockFromQueue OK, DataExhausted False, Swap,
                    ClearColumnData 2, PushFreeBlock]\<rparr>"
proof -
  let ?r1 = "\<lparr>ret = OK, queue_after = exhausted_queue, node_after = eos_node,
      block_after = empty_block, source_state_after = FINISHED,
      calls = [DataExhausted True, Pull OK True]\<rparr>"
  let ?r2 = "\<lparr>ret = OK, queue_after = (loaded_queue [] False)\<lparr>free_list := [empty_block]\<rparr>,
      node_after = eos_node, block_after = batch100 ''a'',
      source_state_after = DEPEND_ON_SOURCE,
      calls = [DataExhausted False, GetBlockFromQueue OK, DataExhausted False, Swap,
               ClearColumnData 2, PushFreeBlock]\<rparr>"
  have s1: "get_block block_queue_ops scripted_node_ops
      \<lparr>data_queue = exhausted_queue, node = eos_node\<rparr> empty_block RUNNING = Some ?r1"
    by (simp add: get_block_exhausted_bq exhausted_queue_exhausted pull_step_def eos_node_pull)
  have s2: "get_block block_queue_ops scripted_node_ops
      \<lparr>data_queue = loaded_queue [batch100 ''a''] False, node = eos_node\<rparr> empty_block
      RUNNING = Some ?r2"
    by (simp add: loaded_queue_def get_block_swap_bq eos_node_slots clear_column_data_empty)
  have "source_state_after ?r1 = FINISHED \<longleftrightarrow> (\<exists>st. Pull st True \<in> set (calls ?r1))"
    using get_block_source_state [OF s1] by simp
  moreover
  have "source_state_after ?r2 \<noteq> FINISHED \<longrightarrow> source_state_after ?r2 = DEPEND_ON_SOURCE"
    using get_block_source_state [OF s2] by simp
  ultimately show ?thesis using s1 s2 by simp
qed

text \<open>
  C7. If the pop from the queue returns a status that is not OK, \<open>get_block\<close> returns
  that status at once: the queue is as the pop left it, the node and the output block
  are untouched, \<open>source_state\<close> keeps its value, and the step has made no call after
  the pop. If the pull from the legacy node returns a status that is not OK, on a queue
  exhausted at entry or on a queue found exhausted after the pop, \<open>get_block\<close> returns
  that status, \<open>source_state\<close> keeps its value, and the pull is the last call of the
  step. In every step a call that failed is the last call and its status is the status
  returned; a step pops at most once and pulls at most once, so nothing is retried.
\<close>

theorem get_block_error_propagation:
  "(\<not> dq_data_exhausted Q (data_queue opr) \<and>
      dq_get_block_from_queue Q (data_queue opr) = (st, q', agg_block) \<and> st \<noteq> OK \<longrightarrow>
      get_block Q N opr block ss =
        Some \<lparr>ret = st, queue_after = q', node_after = node opr, block_after = block,
              source_state_after = ss,
              calls = [DataExhausted False, GetBlockFromQueue st]\<rparr>)
   \<and> (dq_data_exhausted Q (data_queue opr) \<and>
      node_pull N (node opr) block False = (st, n', block', eos) \<and> st \<noteq> OK \<longrightarrow>
      get_block Q N opr block ss =
        Some \<lparr>ret = st, queue_after = data_queue opr, node_after = n', block_after = block',
              source_state_after = ss, calls = [DataExhausted True, Pull st eos]\<rparr>)
   \<and> (\<not> dq_data_exhausted Q (data_queue opr) \<and>
      dq_get_block_from_queue Q (data_queue opr) = (OK, q', agg_block) \<and>
      dq_data_exhausted Q q' \<and>
      node_pull N (node opr) block False = (st, n', block', eos) \<and> st \<noteq> OK \<longrightarrow>
      get_block Q N opr block ss =
        Some \<lparr>ret = st, queue_after = q', node_after = n', block_after = block',
              source_state_after = ss,
              calls = [DataExhausted False, GetBlockFromQueue OK, DataExhausted True,
                       Pull st eos]\<rparr>)
   \<and> (get_block Q N opr block ss = Some r \<longrightarrow>
        (ret r \<noteq> OK \<longrightarrow>
            event_status (last (calls r)) = Some (ret r) \<and> source_state_after r = ss)
        \<and> (\<forall>e \<in> set (calls r). failed e \<longrightarrow>
            e = last (calls r) \<and> event_status e = Some (ret r))
        \<and> length (filter is_pop (calls r)) \<le> 1
        \<and> length (filter is_pull (calls r)) \<le> 1
        \<and> (\<forall>st. GetBlockFromQueue st \<in> set (calls r) \<and> st \<noteq> OK \<longrightarrow>
            calls r = [DataExhausted False, GetBlockFromQueue st] \<and>
            queue_after r = fst (snd (dq_get_block_from_queue Q (data_queue opr))) \<and>
            node_after r = node opr \<and> block_after r = block))"
proof -
  have pop_fails: "\<not> dq_data_exhausted Q (data_queue opr) \<and>
      dq_get_block_from_queue Q (data_queue opr) = (st, q', agg_block) \<and> st \<noteq> OK \<longrightarrow>
      get_block Q N opr block ss =
        Some \<lparr>ret = st, queue_after = q', node_after = node opr, block_after = block,
              source_state_after = ss,
              calls = [DataExhausted False, GetBlockFromQueue st]\<rparr>"
    by (simp add: get_block_def)
  have pull_fails: "dq_data_exhausted Q (data_queue opr) \<and>
      node_pull N (node opr) block False = (st, n', block', eos) \<and> st \<noteq> OK \<longrightarrow>
      get_block Q N opr block ss =
        Some \<lparr>ret = st, queue_after = data_queue opr, node_after = n', block_after = block',
              source_state_after = ss, calls = [DataExhausted True, Pull st eos]\<rparr>"
    by (simp add: get_block_def pull_step_def)
  have drained_pull_fails: "\<not> dq_data_exhausted Q (data_queue opr) \<and>
      dq_get_block_from_queue Q (data_queue opr) = (OK, q', agg_block) \<and>
      dq_data_exhausted Q q' \<and>
      node_pull N (node opr) block False = (st, n', block', eos) \<and> st \<noteq> OK \<longrightarrow>
      get_block Q N opr block ss =
        Some \<lparr>ret = st, queue_after = q', node_after = n', block_after = block',
              source_state_after = ss,
              calls = [DataExhausted False, GetBlockFromQueue OK, DataExhausted True,
                       Pull st eos]\<rparr>"
    by (simp add: get_block_def pull_step_def)
  have trace: "get_block Q N opr block ss = Some r \<longrightarrow>
        (ret r \<noteq> OK \<longrightarrow>
            event_status (last (calls r)) = Some (ret r) \<and> source_state_after r = ss)
        \<and> (\<forall>e \<in> set (calls r). failed e \<longrightarrow>
            e = last (calls r) \<and> event_status e = Some (ret r))
        \<and> length (filter is_pop (calls r)) \<le> 1
        \<and> length (filter is_pull (calls r)) \<le> 1
        \<and> (\<forall>st. GetBlockFromQueue st \<in> set (calls r) \<and> st \<noteq> OK \<longrightarrow>
            calls r = [DataExhausted False, GetBlockFromQueue st] \<and>
            queue_after r = fst (snd (dq_get_block_from_queue Q (data_queue opr))) \<and>
            node_after r = node opr \<and> block_after r = block)"
  proof
    assume "get_block Q N opr block ss = Some r"
    then show "(ret r \<noteq> OK \<longrightarrow>
            event_status (last (calls r)) = Some (ret r) \<and> source_state_after r = ss)
        \<and> (\<forall>e \<in> set (calls r). failed e \<longrightarrow>
            e = last (calls r) \<and> event_status e = Some (ret r))
        \<and> length (filter is_pop (calls r)) \<le> 1
        \<and> length (filter is_pull (calls r)) \<le> 1
        \<and> (\<forall>st. GetBlockFromQueue st \<in> set (calls r) \<and> st \<noteq> OK \<longrightarrow>
            calls r = [DataExhausted False, GetBlockFromQueue st] \<and>
            queue_after r = fst (snd (dq_get_block_from_queue Q (data_queue opr))) \<and>
            node_after r = node opr \<and> block_after r = block)"
      by (auto simp: get_block_def pull_step_def block_swap_def
          split: if_splits prod.splits option.splits)
  qed
  show ?thesis
    by (intro conjI pop_fails pull_fails drained_pull_fails trace)
qed

text \<open>A step whose pop fails, and two steps whose pull fails.\<close>

theorem get_block_error_propagation_witness:
  "\<not> dq_data_exhausted broken_queue_ops (loaded_queue [batch100 ''a''] False)
   \<and> dq_get_block_from_queue broken_queue_ops (loaded_queue [batch100 ''a''] False) =
       (Cancelled ''queue cancelled'', loaded_queue [batch100 ''a''] False, None)
   \<and> get_block broken_queue_ops scripted_node_ops
      \<lparr>data_queue = loaded_queue [batch100 ''a''] False, node = eos_node\<rparr> empty_block RUNNING =
     Some \<lparr>ret = Cancelled ''queue cancelled'',
           queue_after = loaded_queue [batch100 ''a''] False,
           node_after = eos_node, block_after = empty_block, source_state_after = RUNNING,
           calls = [DataExhausted False, GetBlockFromQueue (Cancelled ''queue cancelled'')]\<rparr>
   \<and> dq_data_exhausted block_queue_ops exhausted_queue
   \<and> get_block block_queue_ops scripted_node_ops
      \<lparr>data_queue = exhausted_queue, node = failing_node\<rparr> empty_block RUNNING =
     Some \<lparr>ret = UpstreamFailure ''pull failed'', queue_after = exhausted_queue,
           node_after = \<lparr>script = [], slots = 2\<rparr>, block_after = empty_block,
           source_state_after = RUNNING,
           calls = [DataExhausted True, Pull (UpstreamFailure ''pull failed'') False]\<rparr>
   \<and> get_block block_queue_ops scripted_node_ops
      \<lparr>data_queue = loaded_queue [] True, node = failing_node\<rparr> empty_block RUNNING =
     Some \<lparr>ret = UpstreamFailure ''pull failed'', queue_after = exhausted_queue,
           node_after = \<lparr>script = [], slots = 2\<rparr>, block_after = empty_block,
           source_state_after = RUNNING,
           calls = [DataExhausted False, GetBlockFromQueue OK, DataExhausted True,
                    Pull (UpstreamFailure ''pull failed'') False]\<rparr>"
proof -
  have e0: "dq_data_exhausted block_queue_ops exhausted_queue"
    by (simp add: block_queue_ops_def exhausted_queue_def)
  have e1: "\<not> dq_data_exhausted block_queue_ops (loaded_queue [] True)"
    by (simp add: block_queue_ops_def loaded_queue_def)
  have e2: "\<not> dq_data_exhausted broken_queue_ops (loaded_queue [batch100 ''a''] False)"
    by (simp add: broken_queue_ops_def block_queue_ops_def loaded_queue_def)
  have p1: "dq_get_block_from_queue block_queue_ops (loaded_queue [] True) =
      (OK, exhausted_queue, None)"
    by (simp add: block_queue_ops_def loaded_queue_def exhausted_queue_def try_pop_ready_def)
  have p2: "dq_get_block_from_queue broken_queue_ops (loaded_queue [batch100 ''a''] False) =
      (Cancelled ''queue cancelled'', loaded_queue [batch100 ''a''] False, None)"
    by (simp add: broken_queue_ops_def)
  have f: "Cancelled ''queue cancelled'' \<noteq> OK" "UpstreamFailure ''pull failed'' \<noteq> OK"
    by simp_all
  have a: "get_block broken_queue_ops scripted_node_ops
      \<lparr>data_queue = loaded_queue [batch100 ''a''] False, node = eos_node\<rparr> empty_block RUNNING =
     Some \<lparr>ret = Cancelled ''queue cancelled'',
           queue_after = loaded_queue [batch100 ''a''] False,
           node_after = eos_node, block_after = empty_block, source_state_after = RUNNING,
           calls = [DataExhausted False, GetBlockFromQueue (Cancelled ''queue cancelled'')]\<rparr>"
    using get_block_error_propagation [where Q = broken_queue_ops and N = scripted_node_ops
        and opr = "\<lparr>data_queue = loaded_queue [batch100 ''a''] False, node = eos_node\<rparr>"
        and block = empty_block and ss = RUNNING and st = "Cancelled ''queue cancelled''"
        and q' = "loaded_queue [batch100 ''a''] False" and agg_block = None,
        THEN conjunct1]
      e2 p2 f
    by simp
  have b: "get_block block_queue_ops scripted_node_ops
      \<lparr>data_queue = exhausted_queue, node = failing_node\<rparr> empty_block RUNNING =
     Some \<lparr>ret = UpstreamFailure ''pull failed'', queue_after = exhausted_queue,
           node_after = \<lparr>script = [], slots = 2\<rparr>, block_after = empty_block,
           source_state_after = RUNNING,
           calls = [DataExhausted True, Pull (UpstreamFailure ''pull failed'') False]\<rparr>"
    using get_block_error_propagation [where Q = block_queue_ops and N = scripted_node_ops
        and opr = "\<lparr>data_queue = exhausted_queue, node = failing_node\<rparr>"
        and block = empty_block and ss = RUNNING and st = "UpstreamFailure ''pull failed''"
        and n' = "\<lparr>script = [], slots = 2\<rparr>" and block' = empty_block and eos = False,
        THEN conjunct2, THEN conjunct1]
      e0 failing_node_pull [of empty_block] f
    by simp
  have c: "get_block block_queue_ops scripted_node_ops
      \<lparr>data_queue = loaded_queue [] True, node = failing_node\<rparr> empty_block RUNNING =
     Some \<lparr>ret = UpstreamFailure ''pull failed'', queue_after = exhausted_queue,
           node_after = \<lparr>script = [], slots = 2\<rparr>, block_after = empty_block,
           source_state_after = RUNNING,
           calls = [DataExhausted False, GetBlockFromQueue OK, DataExhausted True,
                    Pull (UpstreamFailure ''pull failed'') False]\<rparr>"
    using get_block_error_propagation [where Q = block_queue_ops and N = scripted_node_ops
        and opr = "\<lparr>data_queue = loaded_queue [] True, node = failing_node\<rparr>"
        and block = empty_block and ss = RUNNING and st = "UpstreamFailure ''pull failed''"
        and q' = exhausted_queue and agg_block = None
        and n' = "\<lparr>script = [], slots = 2\<rparr>" and block' = empty_block and eos = False,
        THEN conjunct2, THEN conjunct2, THEN conjunct1]
      e0 e1 p1 failing_node_pull [of empty_block] f
    by simp
  from e0 e2 p2 a b c show ?thesis by blast
qed

text \<open>
  C6. \<open>StreamingAggSourceOperator::can_read\<close> returns what \<open>has_data_or_finished\<close> returns
  on the bound queue, for every queue; on the block queue of the specification it is
  false when the ready sequence is empty and the producer has not marked finished.
\<close>

theorem can_read_probe:
  "can_read Q opr = dq_has_data_or_finished Q (data_queue opr)
   \<and> can_read block_queue_ops \<lparr>data_queue = q, node = n\<rparr> = has_data_or_finished q
   \<and> (ready q = [] \<and> \<not> producer_finished q \<longrightarrow>
        \<not> can_read block_queue_ops \<lparr>data_queue = q, node = n\<rparr>)"
  by (simp add: can_read_def block_queue_ops_def has_data_or_finished_def is_exhausted_def)

text \<open>Scenario B: an empty queue whose producer has not finished is not readable.\<close>

theorem can_read_probe_witness:
  "ready (empty_queue 8 :: block block_queue) = []
   \<and> \<not> producer_finished (empty_queue 8 :: block block_queue)
   \<and> \<not> can_read block_queue_ops \<lparr>data_queue = empty_queue 8, node = eos_node\<rparr>"
proof -
  have h: "ready (empty_queue 8 :: block block_queue) = []
      \<and> \<not> producer_finished (empty_queue 8 :: block block_queue)"
    by (simp add: empty_queue_def)
  from h can_read_probe [of block_queue_ops "\<lparr>data_queue = empty_queue 8, node = eos_node\<rparr>"
      "empty_queue 8" eos_node]
  show ?thesis by blast
qed

section \<open>Scenario A on the block queue of the specification\<close>

text \<open>
  C3. Starting from a queue pre-loaded with three batches whose producer has marked
  finished, three consecutive calls of \<open>get_block\<close> return the three batches, in order,
  each with state \<open>DEPEND_ON_SOURCE\<close> and without a pull. The fourth call pops nothing,
  finds the queue exhausted and pulls from the legacy node; if the node reports
  end-of-stream at once, the fourth call returns \<open>FINISHED\<close> with the output block as the
  node left it. The three holders recycled by the first three calls are on the free-list.
\<close>

theorem scenario_A_four_calls:
  assumes "node_pull N n o4 False = (OK, n', o4', True)"
  shows "\<exists>r1 r2 r3 r4.
     get_blocks block_queue_ops N
       \<lparr>data_queue = \<lparr>ready = [b1, b2, b3], free_list = fl, producer_finished = True,
                      data_exhausted = False, consumer_detached = d, bound = c\<rparr>,
        node = n\<rparr> [o1, o2, o3, o4] ss = Some [r1, r2, r3, r4]
     \<and> summary r1 = (OK, b1, DEPEND_ON_SOURCE, False)
     \<and> summary r2 = (OK, b2, DEPEND_ON_SOURCE, False)
     \<and> summary r3 = (OK, b3, DEPEND_ON_SOURCE, False)
     \<and> summary r4 = (OK, o4', FINISHED, True)
     \<and> calls r4 = [DataExhausted False, GetBlockFromQueue OK, DataExhausted True, Pull OK True]
     \<and> ready (queue_after r4) = [] \<and> data_exhausted (queue_after r4)
     \<and> free_list (queue_after r4) =
         fl @ [clear_column_data (node_num_materialized_slots N n) o1,
               clear_column_data (node_num_materialized_slots N n) o2,
               clear_column_data (node_num_materialized_slots N n) o3]"
  using assms
  by (simp add: get_block_swap_bq get_block_drain_bq pull_step_def summary_def)

text \<open>
  Scenario A itself: three batches of 100 rows, a node at end-of-stream, and a caller
  that passes an empty output block to each of four calls.
\<close>

theorem scenario_A_four_calls_witness:
  "node_pull scripted_node_ops eos_node empty_block False = (OK, eos_node, empty_block, True)
   \<and> map_option (map summary)
       (get_blocks block_queue_ops scripted_node_ops scenario_A
          [empty_block, empty_block, empty_block, empty_block] DEPEND_ON_SOURCE) =
     Some [(OK, batch100 ''a'', DEPEND_ON_SOURCE, False),
           (OK, batch100 ''b'', DEPEND_ON_SOURCE, False),
           (OK, batch100 ''c'', DEPEND_ON_SOURCE, False),
           (OK, empty_block, FINISHED, True)]
   \<and> rows (batch100 ''a'') = 100 \<and> rows (batch100 ''b'') = 100 \<and> rows (batch100 ''c'') = 100
   \<and> rows empty_block = 0"
proof -
  have h: "node_pull scripted_node_ops eos_node empty_block False =
      (OK, eos_node, empty_block, True)"
    by (rule eos_node_pull)
  from scenario_A_four_calls [OF h, of "batch100 ''a''" "batch100 ''b''" "batch100 ''c''"
      "[]" False 8 empty_block empty_block empty_block DEPEND_ON_SOURCE]
  have run: "map_option (map summary)
       (get_blocks block_queue_ops scripted_node_ops scenario_A
          [empty_block, empty_block, empty_block, empty_block] DEPEND_ON_SOURCE) =
     Some [(OK, batch100 ''a'', DEPEND_ON_SOURCE, False),
           (OK, batch100 ''b'', DEPEND_ON_SOURCE, False),
           (OK, batch100 ''c'', DEPEND_ON_SOURCE, False),
           (OK, empty_block, FINISHED, True)]"
    unfolding scenario_A_def scenario_A_queue_def by auto
  have r: "rows (batch100 ''a'') = 100 \<and> rows (batch100 ''b'') = 100
      \<and> rows (batch100 ''c'') = 100 \<and> rows empty_block = 0"
    by (simp add: rows_def batch100_def empty_block_def)
  from h run r show ?thesis by blast
qed

section \<open>Recycled batches\<close>



section \<open>The block queue\<close>

text \<open>
  C4. After any sequence of operations on a queue whose producer had not finished,
  \<open>is_exhausted\<close> is true if and only if \<open>mark_producer_finished\<close> is among the
  operations and the ready sequence is empty at that moment. The finished flag is never
  cleared, and once \<open>is_exhausted\<close> is true it stays true under every sequence of later
  operations. The same holds of \<open>data_exhausted\<close>, which is only ever true of a queue
  for which \<open>is_exhausted\<close> is true.
\<close>

theorem is_exhausted_runs:
  "(\<not> producer_finished q \<longrightarrow>
      is_exhausted (run_queue_ops xs q) =
        (MarkProducerFinished \<in> set xs \<and> ready (run_queue_ops xs q) = []))
   \<and> (producer_finished q \<longrightarrow> producer_finished (run_queue_ops xs q))
   \<and> (is_exhausted q \<longrightarrow> is_exhausted (run_queue_ops xs q))
   \<and> (data_exhausted q \<longrightarrow> data_exhausted (run_queue_ops xs q))
   \<and> ((data_exhausted q \<longrightarrow> is_exhausted q) \<longrightarrow>
        data_exhausted (run_queue_ops xs q) \<longrightarrow> is_exhausted (run_queue_ops xs q))"
proof -
  have hist: "\<not> producer_finished q \<longrightarrow>
      is_exhausted (run_queue_ops xs q) =
        (MarkProducerFinished \<in> set xs \<and> ready (run_queue_ops xs q) = [])"
    by (simp add: is_exhausted_def run_queue_ops_finished)
  have flag: "producer_finished q \<longrightarrow> producer_finished (run_queue_ops xs q)"
    by (simp add: run_queue_ops_finished)
  have mono: "is_exhausted q \<longrightarrow> is_exhausted (run_queue_ops xs q)"
    by (simp add: run_queue_ops_exhausted)
  have latch: "data_exhausted q \<longrightarrow> data_exhausted (run_queue_ops xs q)"
    by (simp add: run_queue_ops_latch)
  have sound: "(data_exhausted q \<longrightarrow> is_exhausted q) \<longrightarrow>
      data_exhausted (run_queue_ops xs q) \<longrightarrow> is_exhausted (run_queue_ops xs q)"
    using run_queue_ops_latch_sound by blast
  from hist flag mono latch sound show ?thesis by blast
qed

text \<open>
  Runs with a push before and after \<open>mark_producer_finished\<close>: the later push is refused
  and the queue stays exhausted.
\<close>

theorem is_exhausted_runs_witness:
  "\<not> producer_finished (empty_queue 8 :: block block_queue)
   \<and> is_exhausted (run_queue_ops [PushReady (batch100 ''a''), MarkProducerFinished, TryPopReady]
        (empty_queue 8))
   \<and> \<not> is_exhausted (run_queue_ops [PushReady (batch100 ''a''), MarkProducerFinished]
        (empty_queue 8))
   \<and> is_exhausted (run_queue_ops [MarkProducerFinished] (empty_queue 8 :: block block_queue))
   \<and> is_exhausted (run_queue_ops [PushReady (batch100 ''a''), TryPopReady, PushFree (batch100 ''a''),
        TryPopFree, MarkProducerFinished]
        (run_queue_ops [MarkProducerFinished] (empty_queue 8)))
   \<and> data_exhausted (run_queue_ops [MarkProducerFinished, TryPopReady, PushReady (batch100 ''a'')]
        (empty_queue 8))
   \<and> is_exhausted (run_queue_ops [MarkProducerFinished, TryPopReady, PushReady (batch100 ''a'')]
        (empty_queue 8))"
proof -
  let ?q0 = "empty_queue 8 :: block block_queue"
  let ?later = "[PushReady (batch100 ''a''), TryPopReady, PushFree (batch100 ''a''),
        TryPopFree, MarkProducerFinished]"
  let ?xs = "[MarkProducerFinished, TryPopReady, PushReady (batch100 ''a'')]"
  have h: "\<not> producer_finished ?q0"
    by (simp add: empty_queue_def)
  have r1: "ready (run_queue_ops [PushReady (batch100 ''a''), MarkProducerFinished, TryPopReady]
        ?q0) = []"
    by (simp add: empty_queue_def push_ready_def mark_producer_finished_def try_pop_ready_def)
  have r2: "ready (run_queue_ops [PushReady (batch100 ''a''), MarkProducerFinished] ?q0) \<noteq> []"
    by (simp add: empty_queue_def push_ready_def mark_producer_finished_def)
  have r3: "ready (run_queue_ops [MarkProducerFinished] ?q0) = []"
    by (simp add: empty_queue_def mark_producer_finished_def)
  have a: "is_exhausted (run_queue_ops [PushReady (batch100 ''a''), MarkProducerFinished,
        TryPopReady] ?q0)"
    using is_exhausted_runs [where q = ?q0
        and xs = "[PushReady (batch100 ''a''), MarkProducerFinished, TryPopReady]"] h r1
    by simp
  have b: "\<not> is_exhausted (run_queue_ops [PushReady (batch100 ''a''), MarkProducerFinished] ?q0)"
    using is_exhausted_runs [where q = ?q0
        and xs = "[PushReady (batch100 ''a''), MarkProducerFinished]"] h r2
    by simp
  have c: "is_exhausted (run_queue_ops [MarkProducerFinished] ?q0)"
    using is_exhausted_runs [where q = ?q0 and xs = "[MarkProducerFinished]"] h r3
    by simp
  have d: "is_exhausted (run_queue_ops ?later (run_queue_ops [MarkProducerFinished] ?q0))"
    using is_exhausted_runs [where q = "run_queue_ops [MarkProducerFinished] ?q0"
        and xs = ?later] c
    by blast
  have l: "data_exhausted (run_queue_ops ?xs ?q0)"
    by (simp add: empty_queue_def push_ready_def mark_producer_finished_def try_pop_ready_def)
  have s0: "data_exhausted ?q0 \<longrightarrow> is_exhausted ?q0"
    by (simp add: empty_queue_def)
  have e: "is_exhausted (run_queue_ops ?xs ?q0)"
    using is_exhausted_runs [where q = ?q0 and xs = ?xs] s0 l
    by blast
  from h a b c d l e show ?thesis by blast
qed

text \<open>
  C5. For every sequence of actions of the producer and the consumer on one queue, the
  batches popped so far followed by the ready sequence are the batches pushed so far, in
  the order of the pushes: batches leave the ready sequence in the order in which they
  entered it. The number of places that hold a batch never changes, so a batch held by
  exactly one of the producer, the ready sequence, the consumer and the free-list is held
  by exactly one of them in every state that the actions reach.
\<close>

theorem fifo_and_single_owner:
  "(pushed s = popped s @ ready (queue s) \<longrightarrow>
      pushed (run as s) = popped (run as s) @ ready (queue (run as s)))
   \<and> holders (run as s) b = holders s b
   \<and> (holders s b = 1 \<longrightarrow> holders (run as s) b = 1)"
  by (simp add: run_fifo run_holders)

theorem fifo_and_single_owner_witness:
  "pushed three_batches = popped three_batches @ ready (queue three_batches)
   \<and> holders three_batches 2 = 1
   \<and> holders (run [ProducerPush 1, ProducerPush 2, ProducerPush 3, ConsumerPop, ConsumerPop,
                   ConsumerRecycle 1, ProducerReuse, ProducerFinish] three_batches) 2 = 1
   \<and> popped (run [ProducerPush 1, ProducerPush 2, ProducerPush 3, ConsumerPop, ConsumerPop,
                   ConsumerRecycle 1, ProducerReuse, ProducerFinish] three_batches) = [1, 2]
   \<and> pushed (run [ProducerPush 1, ProducerPush 2, ProducerPush 3, ConsumerPop, ConsumerPop,
                   ConsumerRecycle 1, ProducerReuse, ProducerFinish] three_batches) = [1, 2]"
proof -
  let ?as = "[ProducerPush 1, ProducerPush 2, ProducerPush 3, ConsumerPop, ConsumerPop,
              ConsumerRecycle 1, ProducerReuse, ProducerFinish] :: nat action list"
  have f: "pushed three_batches = popped three_batches @ ready (queue three_batches)"
    by (simp add: three_batches_def empty_queue_def)
  have h: "holders three_batches 2 = 1"
    by code_simp
  have p: "popped (run ?as three_batches) = [1, 2]"
    by code_simp
  have r: "ready (queue (run ?as three_batches)) = []"
    by code_simp
  from fifo_and_single_owner [of three_batches ?as 2] f h
  have t: "holders (run ?as three_batches) 2 = 1
      \<and> pushed (run ?as three_batches) =
          popped (run ?as three_batches) @ ready (queue (run ?as three_batches))"
    by blast
  from t p r have u: "pushed (run ?as three_batches) = [1, 2]"
    by (simp only: append_Nil2)
  from f h t p u show ?thesis by blast
qed

section \<open>The scanner of the session variables\<close>

text \<open>
  C9, as the code has it. Invoked before initialization, \<open>get_next_block\<close> fails with
  the internal error "call this before initial.", whatever the two pointers are. Invoked
  after initialization with a null block pointer or a null eos pointer, it fails with the
  internal error "invalid parameter.". In both cases nothing behind the pointers changes,
  and no call returns an InvalidArgument status.
\<close>

theorem get_next_block_errors:
  "(\<not> is_init sc \<longrightarrow>
      get_next_block fill sc block eos =
        (InternalError ''call this before initial.'', block, eos))
   \<and> (is_init sc \<and> (block = None \<or> eos = None) \<longrightarrow>
      get_next_block fill sc block eos = (InternalError ''invalid parameter.'', block, eos))
   \<and> \<not> is_invalid_argument (fst (get_next_block fill sc block eos))"
  by (auto simp: get_next_block_def fill_block_impl_def Let_def split: option.splits)

theorem get_next_block_errors_witness:
  "\<not> is_init \<lparr>is_init = False, variables = [(''a'', ''1'')]\<rparr>
   \<and> get_next_block fill_dest_column \<lparr>is_init = False, variables = [(''a'', ''1'')]\<rparr>
       (Some empty_block) (Some False)
       = (InternalError ''call this before initial.'', Some empty_block, Some False)
   \<and> is_init \<lparr>is_init = True, variables = [(''a'', ''1'')]\<rparr>
   \<and> get_next_block fill_dest_column \<lparr>is_init = True, variables = [(''a'', ''1'')]\<rparr>
       (Some empty_block) None
       = (InternalError ''invalid parameter.'', Some empty_block, None)"
  using get_next_block_errors [where sc = "\<lparr>is_init = False, variables = [(''a'', ''1'')]\<rparr>"
          and fill = fill_dest_column and block = "Some empty_block" and eos = "Some False"]
        get_next_block_errors [where sc = "\<lparr>is_init = True, variables = [(''a'', ''1'')]\<rparr>"
          and fill = fill_dest_column and block = "Some empty_block" and eos = None]
  by simp

text \<open>
  C9 as stated fails: an initialized scanner invoked with a null block pointer returns an
  internal error, not an InvalidArgument status.
\<close>

theorem get_next_block_null_counterexample:
  "get_next_block fill_dest_column \<lparr>is_init = True, variables = [(''a'', ''1'')]\<rparr> None
     (Some False) = (InternalError ''invalid parameter.'', None, Some False)
   \<and> \<not> is_invalid_argument (fst (get_next_block fill_dest_column
         \<lparr>is_init = True, variables = [(''a'', ''1'')]\<rparr> None (Some False)))
   \<and> is_internal_error (fst (get_next_block fill_dest_column
         \<lparr>is_init = True, variables = [(''a'', ''1'')]\<rparr> None (Some False)))"
  by (simp add: get_next_block_def)

text \<open>
  C10. Whenever \<open>get_next_block\<close> returns OK it has set \<open>*eos\<close> to true, and it returns
  OK exactly when the scanner is initialized and neither pointer is null. Such a call
  leaves in the block what the two loops of \<open>_fill_block_impl\<close> make of it: every name
  filled into the first column and then every value filled into the second, in the order
  of the variables; with \<open>fill_dest_column\<close> appending, one call appends all names to
  the first column and all values to the second. When the list of variables is empty, the
  call returns OK with \<open>*eos\<close> true and the block as it was; with an empty list no call
  changes the block.
\<close>

theorem get_next_block_eos:
  "(fst (get_next_block fill sc block eos) = OK \<longrightarrow>
      snd (snd (get_next_block fill sc block eos)) = Some True)
   \<and> (fst (get_next_block fill sc block eos) = OK \<longleftrightarrow>
        is_init sc \<and> block \<noteq> None \<and> eos \<noteq> None)
   \<and> (is_init sc \<and> variables sc = [] \<longrightarrow>
        get_next_block fill sc (Some b) (Some e) = (OK, Some b, Some True))
   \<and> (variables sc = [] \<longrightarrow> fst (snd (get_next_block fill sc block eos)) = block)
   \<and> (is_init sc \<longrightarrow>
        get_next_block fill sc (Some b) (Some e) =
          (OK,
           Some (foldl (\<lambda>b it. fill b (snd it) (s_vars_columns ! 1))
                   (foldl (\<lambda>b it. fill b (fst it) (s_vars_columns ! 0)) b (variables sc))
                   (variables sc)),
           Some True))
   \<and> (is_init sc \<longrightarrow>
        get_next_block fill_dest_column sc (Some [c0, c1]) (Some e) =
          (OK,
           Some [c0\<lparr>cells := cells c0 @ map fst (variables sc)\<rparr>,
                 c1\<lparr>cells := cells c1 @ map snd (variables sc)\<rparr>],
           Some True))"
proof -
  have eos_set: "fst (get_next_block fill sc block eos) = OK \<longrightarrow>
      snd (snd (get_next_block fill sc block eos)) = Some True"
    by (auto simp: get_next_block_def fill_block_impl_def Let_def split: option.splits)
  have ok_iff: "fst (get_next_block fill sc block eos) = OK \<longleftrightarrow>
      is_init sc \<and> block \<noteq> None \<and> eos \<noteq> None"
    by (auto simp: get_next_block_def fill_block_impl_def Let_def split: option.splits)
  have none: "is_init sc \<and> variables sc = [] \<longrightarrow>
      get_next_block fill sc (Some b) (Some e) = (OK, Some b, Some True)"
    by (simp add: get_next_block_def)
  have same: "variables sc = [] \<longrightarrow> fst (snd (get_next_block fill sc block eos)) = block"
    by (auto simp: get_next_block_def split: option.splits)
  have filled: "is_init sc \<longrightarrow>
      get_next_block fill sc (Some b) (Some e) =
        (OK,
         Some (foldl (\<lambda>b it. fill b (snd it) (s_vars_columns ! 1))
                 (foldl (\<lambda>b it. fill b (fst it) (s_vars_columns ! 0)) b (variables sc))
                 (variables sc)),
         Some True)"
    by (simp add: get_next_block_def fill_block_impl_def Let_def)
  have "is_init sc \<longrightarrow>
      get_next_block fill_dest_column sc (Some [c0, c1]) (Some e) =
        (OK,
         Some (foldl (\<lambda>b it. fill_dest_column b (snd it) (s_vars_columns ! 1))
                 (foldl (\<lambda>b it. fill_dest_column b (fst it) (s_vars_columns ! 0)) [c0, c1]
                    (variables sc))
                 (variables sc)),
         Some True)"
    by (simp add: get_next_block_def fill_block_impl_def Let_def)
  then have two: "is_init sc \<longrightarrow>
      get_next_block fill_dest_column sc (Some [c0, c1]) (Some e) =
        (OK,
         Some [c0\<lparr>cells := cells c0 @ map fst (variables sc)\<rparr>,
               c1\<lparr>cells := cells c1 @ map snd (variables sc)\<rparr>],
         Some True)"
    by (simp add: fill_names fill_values)
  from eos_set ok_iff none same filled two show ?thesis by blast
qed

theorem get_next_block_eos_witness:
  "is_init \<lparr>is_init = True, variables = [(''a'', ''1''), (''b'', ''2'')]\<rparr>
   \<and> get_next_block fill_dest_column
       \<lparr>is_init = True, variables = [(''a'', ''1''), (''b'', ''2'')]\<rparr>
       (Some used_block) (Some False) =
     (OK, Some [\<lparr>cells = [''k'', ''a'', ''b''], reserved = 4\<rparr>,
                \<lparr>cells = [''v'', ''1'', ''2''], reserved = 4\<rparr>], Some True)
   \<and> is_init \<lparr>is_init = True, variables = []\<rparr>
   \<and> variables \<lparr>is_init = True, variables = []\<rparr> = []
   \<and> get_next_block fill_dest_column \<lparr>is_init = True, variables = []\<rparr> (Some used_block)
       (Some False) = (OK, Some used_block, Some True)"
proof -
  let ?sc = "\<lparr>is_init = True, variables = [(''a'', ''1''), (''b'', ''2'')]\<rparr>"
  let ?k = "\<lparr>cells = [''k''], reserved = 4\<rparr>"
  let ?v = "\<lparr>cells = [''v''], reserved = 4\<rparr>"
  have i: "is_init ?sc" by simp
  from get_next_block_eos [where sc = ?sc and e = False and fill = fill_dest_column
      and block = "Some used_block" and eos = "Some False" and b = used_block
      and ?c0.0 = ?k and ?c1.0 = ?v]
  have "is_init ?sc \<longrightarrow>
      get_next_block fill_dest_column ?sc (Some [?k, ?v]) (Some False) =
        (OK,
         Some [?k\<lparr>cells := cells ?k @ map fst (variables ?sc)\<rparr>,
               ?v\<lparr>cells := cells ?v @ map snd (variables ?sc)\<rparr>],
         Some True)"
    by blast
  with i have a: "get_next_block fill_dest_column ?sc (Some used_block) (Some False) =
     (OK, Some [\<lparr>cells = [''k'', ''a'', ''b''], reserved = 4\<rparr>,
                \<lparr>cells = [''v'', ''1'', ''2''], reserved = 4\<rparr>], Some True)"
    by (simp add: used_block_def)
  from get_next_block_eos [where fill = fill_dest_column
          and sc = "\<lparr>is_init = True, variables = []\<rparr>" and block = "Some used_block"
          and eos = "Some False" and b = used_block and e = False]
  have b: "get_next_block fill_dest_column \<lparr>is_init = True, variables = []\<rparr> (Some used_block)
       (Some False) = (OK, Some used_block, Some True)"
    by simp
  from i a b show ?thesis by simp
qed

end
